theory Spec2Isabelle
  imports Main
begin

section \<open>The command-line front end of the session exporter (main.go)\<close>

text \<open>
  main.go is the interactive driver: it prompts on the terminal, optionally repairs the
  JSON file, loads the store and hands the sessions to the exporter. The packages it
  calls (filesystem, repairdata, exporter, interactivity) are not part of the sources at
  hand, so every call into them goes through a field of the record \<open>env\<close> below; the
  theorems hold for every such environment.
\<close>

subsection \<open>Errors, input events, the observable trace\<close>

text \<open>
  Go compares an \<open>error\<close> with the sentinels \<open>context.Canceled\<close> and \<open>io.EOF\<close> by
  identity; every other error value is \<open>Other\<close> with its message.
\<close>

datatype err = Canceled | EOF | Other string

fun Error :: "err \<Rightarrow> string" where
  "Error Canceled = ''context canceled''"
| "Error EOF = ''EOF''"
| "Error (Other m) = m"

text \<open>
  What the terminal and the signal handler deliver, in the order the program meets it:
  \<open>ReadDone line e\<close> is a \<open>reader.ReadString\<close> that completed (first) with \<open>line\<close> and
  error \<open>e\<close>; \<open>CtxDone\<close> is a \<open>select\<close> that took the \<open>ctx.Done()\<close> branch; \<open>Signal\<close> is
  an interrupt that arrives without ending a \<open>select\<close> (the handler prints its line and
  cancels the context).
\<close>

datatype in_event = ReadDone string "err option" | CtxDone | Signal

text \<open>What main.go itself does to the outside: what it prints and which calls it makes.\<close>

datatype event =
    Print string
  | CallReadFile string
  | CallWriteFile string string
  | CallRepair string
  | CallReadJSON string
  | CallExtract
  | CallConvert bool int string
  | CallCreateSeparate string string
  | CallConfirm string

record 'fs world =
  stdin :: "in_event list"
  canceled :: bool
  fs :: 'fs

record 'fs state =
  world :: "'fs world"
  trace :: "event list"

text \<open>
  A function of main.go either returns to its caller or ends the process with
  \<open>os.Exit\<close>. A process whose \<open>main\<close> returns has exit status 0.
\<close>

datatype 'a outcome = Exit int | Ret 'a

fun exit_status :: "'a outcome \<Rightarrow> int" where
  "exit_status (Exit n) = n"
| "exit_status (Ret _) = 0"

text \<open>
  The collaborators. \<open>ReadFile\<close> and \<open>WriteFile\<close> are the methods of the
  \<open>filesystem.FileSystem\<close> interface that main.go calls. The exporter functions take
  exactly the arguments main.go passes them, so only \<open>ConvertSessionsToCSV\<close> sees the
  context (here: whether it is cancelled); they write their files themselves, to the same
  store. \<open>ConfirmOverwrite\<close> gets the file system, the context and the reader, so it may
  change the whole world, but not the trace of main.go's own actions. \<open>ReadJSONFromFile\<close>
  yields the \<open>Sessions\<close> of the store it parsed.
\<close>

record ('fs, 's) env =
  ReadFile :: "'fs \<Rightarrow> string \<Rightarrow> err + string"
  WriteFile :: "'fs \<Rightarrow> string \<Rightarrow> string \<Rightarrow> err option \<times> 'fs"
  RepairSessionData :: "string \<Rightarrow> err + string"
  ReadJSONFromFile :: "'fs \<Rightarrow> string \<Rightarrow> err + 's"
  ExtractToDataset :: "'s \<Rightarrow> err + string"
  ConvertSessionsToCSV :: "bool \<Rightarrow> 's \<Rightarrow> int \<Rightarrow> string \<Rightarrow> 'fs \<Rightarrow> err option \<times> 'fs"
  CreateSeparateCSVFiles :: "'s \<Rightarrow> string \<Rightarrow> string \<Rightarrow> 'fs \<Rightarrow> err option \<times> 'fs"
  ConfirmOverwrite :: "'fs world \<Rightarrow> string \<Rightarrow> (err + bool) \<times> 'fs world"

definition emit :: "event \<Rightarrow> 'fs state \<Rightarrow> 'fs state" where
  "emit e s = s\<lparr>trace := trace s @ [e]\<rparr>"

definition set_fs :: "'fs \<Rightarrow> 'fs state \<Rightarrow> 'fs state" where
  "set_fs f s = s\<lparr>world := (world s)\<lparr>fs := f\<rparr>\<rparr>"

subsection \<open>The string functions of the Go library that main.go uses\<close>

text \<open>
  Strings are byte lists, in UTF-8 as in Go. \<open>strings.TrimSpace\<close> removes the leading and
  the trailing white space runes: the ASCII ones (tab, line feed, vertical tab, form feed,
  carriage return, space) and, in their encodings of two and three bytes, U+0085, U+00A0,
  U+1680, U+2000 to U+200A, U+2028, U+2029, U+202F, U+205F and U+3000. A byte that does
  not start or end such an encoding stops the trimming, as an invalid or another rune does
  in Go.
\<close>

definition isSpace :: "char \<Rightarrow> bool" where
  "isSpace c = (let n = (of_char c :: nat) in (9 \<le> n \<and> n \<le> 13) \<or> n = 32)"

text \<open>The encodings \<open>C2 85\<close> and \<open>C2 A0\<close>.\<close>

definition isSpace2 :: "char \<Rightarrow> char \<Rightarrow> bool" where
  "isSpace2 a b =
     (let x = (of_char a :: nat); y = (of_char b :: nat)
      in x = 0xC2 \<and> (y = 0x85 \<or> y = 0xA0))"

text \<open>
  The encodings \<open>E1 9A 80\<close>, \<open>E2 80 80\<close> to \<open>E2 80 8A\<close>, \<open>E2 80 A8\<close>, \<open>E2 80 A9\<close>,
  \<open>E2 80 AF\<close>, \<open>E2 81 9F\<close> and \<open>E3 80 80\<close>.
\<close>

definition isSpace3 :: "char \<Rightarrow> char \<Rightarrow> char \<Rightarrow> bool" where
  "isSpace3 a b c =
     (let x = (of_char a :: nat); y = (of_char b :: nat); z = (of_char c :: nat)
      in (x = 0xE1 \<and> y = 0x9A \<and> z = 0x80)
       \<or> (x = 0xE2 \<and> y = 0x80 \<and> ((0x80 \<le> z \<and> z \<le> 0x8A) \<or> z = 0xA8 \<or> z = 0xA9 \<or> z = 0xAF))
       \<or> (x = 0xE2 \<and> y = 0x81 \<and> z = 0x9F)
       \<or> (x = 0xE3 \<and> y = 0x80 \<and> z = 0x80))"

fun trimLeft :: "string \<Rightarrow> string" where
  "trimLeft (a # b # c # s) =
     (if isSpace a then trimLeft (b # c # s)
      else if isSpace2 a b then trimLeft (c # s)
      else if isSpace3 a b c then trimLeft s
      else a # b # c # s)"
| "trimLeft [a, b] =
     (if isSpace a then trimLeft [b]
      else if isSpace2 a b then []
      else [a, b])"
| "trimLeft [a] = (if isSpace a then [] else [a])"
| "trimLeft [] = []"

text \<open>The same from the end, on the reversed string (\<open>a\<close> is the last byte).\<close>

fun trimRightRev :: "string \<Rightarrow> string" where
  "trimRightRev (a # b # c # s) =
     (if isSpace a then trimRightRev (b # c # s)
      else if isSpace2 b a then trimRightRev (c # s)
      else if isSpace3 c b a then trimRightRev s
      else a # b # c # s)"
| "trimRightRev [a, b] =
     (if isSpace a then trimRightRev [b]
      else if isSpace2 b a then []
      else [a, b])"
| "trimRightRev [a] = (if isSpace a then [] else [a])"
| "trimRightRev [] = []"

definition TrimSpace :: "string \<Rightarrow> string" where
  "TrimSpace s = rev (trimRightRev (rev (trimLeft s)))"

text \<open>
  \<open>strings.ToLower\<close> and \<open>strings.ToTitle\<close> are modelled on the ASCII letters; other bytes
  are kept. Go also maps the letters beyond ASCII, but the only two of them with an ASCII
  lower case are U+0130 (to i) and U+212A (to k), so for every input the test
  \<open>strings.ToLower(x) == "yes"\<close> of main.go has the value of \<open>ToLower x = ''yes''\<close> here.
  \<open>ToTitle\<close> is applied to the file type only, which is \<open>dataset\<close> in every call main.go
  makes.
\<close>

definition lower_char :: "char \<Rightarrow> char" where
  "lower_char c = (let n = (of_char c :: nat) in if 65 \<le> n \<and> n \<le> 90 then char_of (n + 32) else c)"

definition upper_char :: "char \<Rightarrow> char" where
  "upper_char c = (let n = (of_char c :: nat) in if 97 \<le> n \<and> n \<le> 122 then char_of (n - 32) else c)"

definition ToLower :: "string \<Rightarrow> string" where
  "ToLower s = map lower_char s"

definition ToTitle :: "string \<Rightarrow> string" where
  "ToTitle s = map upper_char s"

definition isDigit :: "char \<Rightarrow> bool" where
  "isDigit c = (let n = (of_char c :: nat) in 48 \<le> n \<and> n \<le> 57)"

definition digits_val :: "string \<Rightarrow> int" where
  "digits_val ds = foldl (\<lambda>n c. n * 10 + (int (of_char c) - 48)) 0 ds"

text \<open>
  \<open>strconv.Atoi\<close>: an optional sign, then one or more decimal digits and nothing else;
  a value outside the range of \<open>int\<close> (64 bits) is an error too.
\<close>

definition Atoi :: "string \<Rightarrow> int option" where
  "Atoi s =
     (let neg = (s \<noteq> [] \<and> hd s = CHR ''-'');
          ds = (if s \<noteq> [] \<and> (hd s = CHR ''-'' \<or> hd s = CHR ''+'') then tl s else s)
      in if ds \<noteq> [] \<and> list_all isDigit ds then
           (let n = (if neg then - digits_val ds else digits_val ds)
            in if - (2 ^ 63) \<le> n \<and> n < 2 ^ 63 then Some n else None)
         else None)"

subsection \<open>Constants of main.go\<close>

definition OutputFormatSeparateCSV :: int where
  "OutputFormatSeparateCSV = 3"

definition FileTypeDataset :: string where
  "FileTypeDataset = ''dataset''"

definition PromptEnterJSONFilePath :: string where
  "PromptEnterJSONFilePath = ''Enter the path to the JSON file: ''"

definition PromptRepairData :: string where
  "PromptRepairData = ''Do you want to repair data? (yes/no): ''"

definition PromptSelectOutputFormat :: string where
  "PromptSelectOutputFormat = ''Select the output format:\<newline>1) CSV\<newline>2) Hugging Face Dataset\<newline>''"

definition PromptSelectCSVOutputFormat :: string where
  "PromptSelectCSVOutputFormat =
     ''Select the message output format:\<newline>1) Inline Formatting\<newline>2) One Message Per Line\<newline>3) Separate Files for Sessions and Messages\<newline>4) JSON String in CSV\<newline>''"

definition PromptEnterCSVFileName :: string where
  "PromptEnterCSVFileName = ''Enter the name of the CSV file to save: ''"

definition PromptEnterSessionsCSVFileName :: string where
  "PromptEnterSessionsCSVFileName = ''Enter the name of the sessions CSV file to save: ''"

definition PromptEnterMessagesCSVFileName :: string where
  "PromptEnterMessagesCSVFileName = ''Enter the name of the messages CSV file to save: ''"

definition PromptSaveOutputToFile :: string where
  "PromptSaveOutputToFile = ''Do you want to save the output to a file? (yes/no)\<newline>''"

text \<open>\<open>fmt.Sprintf(PromptEnterFileName, fileType)\<close>\<close>

definition PromptEnterFileName :: "string \<Rightarrow> string" where
  "PromptEnterFileName fileType = ''Enter the name of the '' @ fileType @ '' file to save: ''"

definition GracefulMessage :: string where
  "GracefulMessage =
     ''\<newline>[GopherHelper] Exiting gracefully...\<newline>Reason: Operation canceled or end of input. Exiting program.\<newline>''"

subsection \<open>handleInputError and promptForInput\<close>

definition handleInputError :: "err \<Rightarrow> 'fs state \<Rightarrow> unit outcome \<times> 'fs state" where
  "handleInputError e s =
     (if e = Canceled \<or> e = EOF
      then (Exit 0, emit (Print GracefulMessage) s)
      else (Exit 1, emit (Print (''\<newline>[GopherHelper] Error reading input: '' @ Error e @ ''\<newline>'')) s))"

text \<open>
  The error handling written out in processCSVOption, processDatasetOption and
  createSeparateCSVFiles: the same test, another message for the other errors.
\<close>

definition exitOnError :: "err \<Rightarrow> 'fs state \<Rightarrow> unit outcome \<times> 'fs state" where
  "exitOnError e s =
     (if e = Canceled \<or> e = EOF
      then (Exit 0, emit (Print GracefulMessage) s)
      else (Exit 1, emit (Print (''\<newline>Error reading input: '' @ Error e @ ''\<newline>'')) s))"

text \<open>
  setupSignalHandling: a goroutine waits for the first interrupt, prints a line and
  cancels the context. So the line is printed exactly when the context goes from live to
  cancelled.
\<close>

definition SignalMessage :: string where
  "SignalMessage = ''\<newline>[GopherHelper] Exiting gracefully...\<newline>''"

definition handler_line :: "bool \<Rightarrow> bool \<Rightarrow> event list" where
  "handler_line c c' = (if \<not> c \<and> c' then [Print SignalMessage] else [])"

text \<open>
  promptForInput prints the prompt, starts the read and waits in a \<open>select\<close> for the read
  or for \<open>ctx.Done()\<close>. Which of the two the \<open>select\<close> takes is the next input event. An
  exhausted input is a read that returns \<open>io.EOF\<close> at once. Interrupts that arrive after
  the read and before the next \<open>select\<close> have cancelled the context by then; they are
  taken to arrive right after the read.
\<close>

fun signals :: "in_event list \<Rightarrow> bool \<Rightarrow> in_event list \<times> bool \<times> event list" where
  "signals (Signal # es) c =
     (case signals es True of (es', c', evs) \<Rightarrow> (es', c', handler_line c True @ evs))"
| "signals es c = (es, c, [])"

fun await ::
  "in_event list \<Rightarrow> bool \<Rightarrow> (string \<times> err option) \<times> in_event list \<times> bool \<times> event list" where
  "await [] c = (('''', Some EOF), [], c, [])"
| "await (Signal # es) c =
     (case await es True of (res, es', c', evs) \<Rightarrow> (res, es', c', handler_line c True @ evs))"
| "await (CtxDone # es) c = (('''', Some Canceled), es, True, handler_line c True)"
| "await (ReadDone line e # es) c = ((TrimSpace line, e), signals es c)"

definition promptForInput :: "string \<Rightarrow> 'fs state \<Rightarrow> (string \<times> err option) \<times> 'fs state" where
  "promptForInput prompt s =
     (let s1 = emit (Print prompt) s;
          (res, es, c, evs) = await (stdin (world s1)) (canceled (world s1))
      in (res, s1\<lparr>world := (world s1)\<lparr>stdin := es, canceled := c\<rparr>, trace := trace s1 @ evs\<rparr>))"

subsection \<open>repairJSONData\<close>

definition repairJSONData :: "('fs, 's) env \<Rightarrow> string \<Rightarrow> 'fs state \<Rightarrow> (string \<times> err option) \<times> 'fs state" where
  "repairJSONData env jsonFilePath s =
     (let s1 = emit (CallReadFile jsonFilePath) s in
      case ReadFile env (fs (world s1)) jsonFilePath of
        Inl e \<Rightarrow> (('''', Some e), s1)
      | Inr d \<Rightarrow>
          (let s2 = emit (CallRepair d) s1 in
           case RepairSessionData env d of
             Inl repairErr \<Rightarrow> (('''', Some repairErr), s2)
           | Inr repairedData \<Rightarrow>
               (let repairedPath = ''repaired_'' @ jsonFilePath;
                    s3 = emit (CallWriteFile repairedPath repairedData) s2;
                    (werr, fs') = WriteFile env (fs (world s3)) repairedPath repairedData;
                    s4 = set_fs fs' s3
                in case werr of
                     Some e \<Rightarrow> (('''', Some e), s4)
                   | None \<Rightarrow> ((repairedPath, None), s4))))"

subsection \<open>Saving the dataset: saveToFile, processDatasetOption\<close>

text \<open>
  The call \<open>interactivity.ConfirmOverwrite(rfs, ctx, reader, fileName)\<close>. When the context
  is cancelled during the call, the signal handler has printed its line.
\<close>

definition confirmOverwrite :: "('fs, 's) env \<Rightarrow> string \<Rightarrow> 'fs state \<Rightarrow> (err + bool) \<times> 'fs state" where
  "confirmOverwrite env fileName s =
     (let s1 = emit (CallConfirm fileName) s;
          (r, w') = ConfirmOverwrite env (world s1) fileName
      in (r, s1\<lparr>world := w',
                trace := trace s1 @ handler_line (canceled (world s1)) (canceled w')\<rparr>))"

definition saveToFile :: "('fs, 's) env \<Rightarrow> string \<Rightarrow> string \<Rightarrow> 'fs state \<Rightarrow> unit outcome \<times> 'fs state" where
  "saveToFile env content fileType s =
     (let (saveOutput, s1) = promptForInput PromptSaveOutputToFile s in
      case snd saveOutput of
        Some e \<Rightarrow> handleInputError e s1
      | None \<Rightarrow>
          if ToLower (fst saveOutput) = ''yes'' then
            (let (fileName0, s2) = promptForInput (PromptEnterFileName fileType) s1 in
             case snd fileName0 of
               Some e \<Rightarrow> handleInputError e s2
             | None \<Rightarrow>
                 if fst fileName0 = '''' then
                   (Ret (), emit (Print ''No file name entered. Operation cancelled.\<newline>'') s2)
                 else
                   (let fileName = fst fileName0 @ (if fileType = FileTypeDataset then ''.json'' else ''.csv'');
                        (ov, s3) = confirmOverwrite env fileName s2
                    in case ov of
                         Inl e \<Rightarrow> handleInputError e s3
                       | Inr overwrite \<Rightarrow>
                           if \<not> overwrite then
                             (Ret (), emit (Print ''Operation cancelled by the user.\<newline>'') s3)
                           else
                             (let s4 = emit (CallWriteFile fileName content) s3;
                                  (werr, fs') = WriteFile env (fs (world s4)) fileName content;
                                  s5 = set_fs fs' s4
                              in case werr of
                                   Some e \<Rightarrow>
                                     (Ret (), emit (Print (''Error writing file: '' @ Error e @ ''\<newline>'')) s5)
                                 | None \<Rightarrow>
                                     (Ret (), emit (Print (ToTitle fileType @ '' output saved to '' @ fileName @ ''\<newline>'')) s5))))
          else (Ret (), emit (Print ''Save to file operation cancelled by the user.\<newline>'') s1))"

definition processDatasetOption :: "('fs, 's) env \<Rightarrow> 's \<Rightarrow> 'fs state \<Rightarrow> unit outcome \<times> 'fs state" where
  "processDatasetOption env sessions s =
     (let s1 = emit CallExtract s in
      case ExtractToDataset env sessions of
        Inl e \<Rightarrow> exitOnError e s1
      | Inr datasetOutput \<Rightarrow> saveToFile env datasetOutput ''dataset'' s1)"

subsection \<open>CSV export: convertToSingleCSV, createSeparateCSVFiles, executeCSVConversion\<close>

definition convertToSingleCSV ::
  "('fs, 's) env \<Rightarrow> 's \<Rightarrow> int \<Rightarrow> string \<Rightarrow> 'fs state \<Rightarrow> unit outcome \<times> 'fs state" where
  "convertToSingleCSV env sessions formatOption csvFileName s =
     (let (ov, s1) = confirmOverwrite env csvFileName s in
      case ov of
        Inl e \<Rightarrow> (Ret (), emit (Print (''Failed to check file existence: '' @ Error e @ ''\<newline>'')) s1)
      | Inr overwrite \<Rightarrow>
          if \<not> overwrite then (Ret (), emit (Print ''Operation cancelled by the user.\<newline>'') s1)
          else
            (let s2 = emit (CallConvert (canceled (world s1)) formatOption csvFileName) s1;
                 (cerr, fs') = ConvertSessionsToCSV env (canceled (world s2)) sessions formatOption
                                 csvFileName (fs (world s2));
                 s3 = set_fs fs' s2
             in case cerr of
                  Some e \<Rightarrow>
                    if e = Canceled then (Ret (), emit (Print ''Operation was canceled by the user.\<newline>'') s3)
                    else (Ret (), emit (Print (''Failed to convert sessions to CSV: '' @ Error e @ ''\<newline>'')) s3)
                | None \<Rightarrow> (Ret (), emit (Print (''CSV output saved to '' @ csvFileName @ ''\<newline>'')) s3)))"

definition createSeparateCSVFiles :: "('fs, 's) env \<Rightarrow> 's \<Rightarrow> 'fs state \<Rightarrow> unit outcome \<times> 'fs state" where
  "createSeparateCSVFiles env sessions s =
     (let (sessionsFileName, s1) = promptForInput PromptEnterSessionsCSVFileName s in
      case snd sessionsFileName of
        Some e \<Rightarrow> handleInputError e s1
      | None \<Rightarrow>
          (let (ov1, s2) = confirmOverwrite env (fst sessionsFileName) s1 in
           case ov1 of
             Inl e \<Rightarrow> handleInputError e s2
           | Inr overwrite1 \<Rightarrow>
               if \<not> overwrite1 then
                 (Ret (), emit (Print ''Operation cancelled by the user for sessions file.\<newline>'') s2)
               else
                 (let (messagesFileName, s3) = promptForInput PromptEnterMessagesCSVFileName s2 in
                  case snd messagesFileName of
                    Some e \<Rightarrow> handleInputError e s3
                  | None \<Rightarrow>
                      (let (ov2, s4) = confirmOverwrite env (fst messagesFileName) s3 in
                       case ov2 of
                         Inl e \<Rightarrow> handleInputError e s4
                       | Inr overwrite2 \<Rightarrow>
                           if \<not> overwrite2 then
                             (Ret (), emit (Print ''Operation cancelled by the user for messages file.\<newline>'') s4)
                           else
                             (let s5 = emit (CallCreateSeparate (fst sessionsFileName) (fst messagesFileName)) s4;
                                  (cerr, fs') = CreateSeparateCSVFiles env sessions (fst sessionsFileName)
                                                  (fst messagesFileName) (fs (world s5));
                                  s6 = set_fs fs' s5
                              in case cerr of
                                   Some e \<Rightarrow> exitOnError e s6
                                 | None \<Rightarrow>
                                     (Ret (),
                                      emit (Print (''Messages data saved to '' @ fst messagesFileName @ ''\<newline>''))
                                        (emit (Print (''Sessions data saved to '' @ fst sessionsFileName @ ''\<newline>'')) s6)))))))"

text \<open>
  executeCSVConversion: the file name is asked for unless the option is 3; then the
  \<open>switch\<close> sends option 3 to createSeparateCSVFiles and every other option to
  convertToSingleCSV.
\<close>

definition executeCSVConversion ::
  "('fs, 's) env \<Rightarrow> int \<Rightarrow> 's \<Rightarrow> 'fs state \<Rightarrow> unit outcome \<times> 'fs state" where
  "executeCSVConversion env formatOption sessions s =
     (case (if formatOption \<noteq> OutputFormatSeparateCSV then
              (let (csvFileName, s1) = promptForInput PromptEnterCSVFileName s in
               case snd csvFileName of
                 Some e \<Rightarrow> Inl (handleInputError e s1)
               | None \<Rightarrow> Inr (fst csvFileName, s1))
            else Inr ('''', s)) of
        Inl exited \<Rightarrow> exited
      | Inr (csvFileName, s1) \<Rightarrow>
          if formatOption = OutputFormatSeparateCSV then createSeparateCSVFiles env sessions s1
          else convertToSingleCSV env sessions formatOption csvFileName s1)"

subsection \<open>Dispatch: processCSVOption, processOutputOption, main\<close>

definition processCSVOption :: "('fs, 's) env \<Rightarrow> 's \<Rightarrow> 'fs state \<Rightarrow> unit outcome \<times> 'fs state" where
  "processCSVOption env sessions s =
     (let (formatOptionStr, s1) = promptForInput PromptSelectCSVOutputFormat s in
      case snd formatOptionStr of
        Some e \<Rightarrow> exitOnError e s1
      | None \<Rightarrow>
          (case Atoi (fst formatOptionStr) of
             None \<Rightarrow> (Ret (), emit (Print ''\<newline>Invalid format option.\<newline>'') s1)
           | Some formatOption \<Rightarrow> executeCSVConversion env formatOption sessions s1))"

definition processOutputOption ::
  "('fs, 's) env \<Rightarrow> string \<Rightarrow> 's \<Rightarrow> 'fs state \<Rightarrow> unit outcome \<times> 'fs state" where
  "processOutputOption env outputOption sessions s =
     (if outputOption = ''1'' then processCSVOption env sessions s
      else if outputOption = ''2'' then processDatasetOption env sessions s
      else (Ret (), emit (Print ''Invalid output option.\<newline>'') s))"

definition main :: "('fs, 's) env \<Rightarrow> 'fs state \<Rightarrow> unit outcome \<times> 'fs state" where
  "main env s =
     (let (jsonFilePath, s1) = promptForInput PromptEnterJSONFilePath s in
      case snd jsonFilePath of
        Some e \<Rightarrow> handleInputError e s1
      | None \<Rightarrow>
          (let (repairData, s2) = promptForInput PromptRepairData s1 in
           case snd repairData of
             Some e \<Rightarrow> handleInputError e s2
           | None \<Rightarrow>
               if ToLower (fst repairData) = ''yes'' then
                 (let (res, s3) = repairJSONData env (fst jsonFilePath) s2 in
                  case snd res of
                    Some e \<Rightarrow> (Exit 1, emit (Print (''Error: '' @ Error e @ ''\<newline>'')) s3)
                  | None \<Rightarrow>
                      (Exit 0, emit (Print (''Repaired JSON data has been saved to: '' @ fst res @ ''\<newline>'')) s3))
               else
                 (let s3 = emit (CallReadJSON (fst jsonFilePath)) s2 in
                  case ReadJSONFromFile env (fs (world s3)) (fst jsonFilePath) of
                    Inl e \<Rightarrow>
                      (Exit 1, emit (Print (''Error reading or parsing the JSON file: '' @ Error e @ ''\<newline>'')) s3)
                  | Inr sessions \<Rightarrow>
                      (let (outputOption, s4) = promptForInput PromptSelectOutputFormat s3 in
                       case snd outputOption of
                         Some e \<Rightarrow> handleInputError e s4
                       | None \<Rightarrow> processOutputOption env (fst outputOption) sessions s4))))"

subsection \<open>Observations on the trace\<close>

definition is_write :: "event \<Rightarrow> bool" where
  "is_write e = (case e of CallWriteFile _ _ \<Rightarrow> True | _ \<Rightarrow> False)"

text \<open>The \<open>WriteFile\<close> calls of a trace, in order.\<close>

definition writes :: "event list \<Rightarrow> event list" where
  "writes tr = filter is_write tr"

definition is_export :: "event \<Rightarrow> bool" where
  "is_export e =
     (case e of
        CallReadJSON _ \<Rightarrow> True
      | CallExtract \<Rightarrow> True
      | CallConvert _ _ _ \<Rightarrow> True
      | CallCreateSeparate _ _ \<Rightarrow> True
      | _ \<Rightarrow> False)"

text \<open>The calls into the store loader and the exporter, in order.\<close>

definition exports :: "event list \<Rightarrow> event list" where
  "exports tr = filter is_export tr"

subsection \<open>An environment to run the program on\<close>

text \<open>
  The general theorems below hold for every environment. The concrete runs use this one:
  an in-memory file system (an association list from paths to contents, a write replaces
  the entry of its path), a repair that only accepts data starting with an opening brace,
  an exporter that writes fixed contents and rejects the CSV options it does not know,
  and an overwrite confirmation that asks only when the file exists.
\<close>

type_synonym memfs = "(string \<times> string) list"

definition mem_ReadFile :: "memfs \<Rightarrow> string \<Rightarrow> err + string" where
  "mem_ReadFile m p =
     (case map_of m p of None \<Rightarrow> Inl (Other ''file does not exist'') | Some d \<Rightarrow> Inr d)"

definition mem_WriteFile :: "memfs \<Rightarrow> string \<Rightarrow> string \<Rightarrow> err option \<times> memfs" where
  "mem_WriteFile m p d = (None, (p, d) # filter (\<lambda>e. fst e \<noteq> p) m)"

definition test_ConfirmOverwrite :: "memfs world \<Rightarrow> string \<Rightarrow> (err + bool) \<times> memfs world" where
  "test_ConfirmOverwrite w name =
     (if map_of (fs w) name = None then (Inr True, w)
      else (let (res, es, c, evs) = await (stdin w) (canceled w);
                w' = w\<lparr>stdin := es, canceled := c\<rparr>
            in case snd res of
                 Some e \<Rightarrow> (Inl e, w')
               | None \<Rightarrow> (Inr (ToLower (fst res) = ''yes''), w')))"

definition test_env :: "(memfs, string list) env" where
  "test_env =
     \<lparr>ReadFile = mem_ReadFile,
      WriteFile = mem_WriteFile,
      RepairSessionData =
        (\<lambda>d. if d \<noteq> [] \<and> hd d = CHR ''{'' then Inr (d @ ''}'') else Inl (Other ''repair failed'')),
      ReadJSONFromFile =
        (\<lambda>m p. case map_of m p of None \<Rightarrow> Inl (Other ''file does not exist'') | Some d \<Rightarrow> Inr [d]),
      ExtractToDataset = (\<lambda>ss. Inr (concat ss)),
      ConvertSessionsToCSV = (\<lambda>c ss opt name m.
         if c then (Some Canceled, m)
         else if opt = 1 \<or> opt = 2 \<or> opt = 4 then mem_WriteFile m name (concat ss)
         else (Some (Other ''invalid format option''), m)),
      CreateSeparateCSVFiles =
        (\<lambda>ss a b m. mem_WriteFile (snd (mem_WriteFile m a ''sessions'')) b (concat ss)),
      ConfirmOverwrite = test_ConfirmOverwrite\<rparr>"

definition start :: "in_event list \<Rightarrow> memfs \<Rightarrow> memfs state" where
  "start es m = \<lparr>world = \<lparr>stdin = es, canceled = False, fs = m\<rparr>, trace = []\<rparr>"

text \<open>
  The same environment with a file system and an exporter that refuse every write.
\<close>

definition readonly_env :: "(memfs, string list) env" where
  "readonly_env =
     test_env\<lparr>WriteFile := (\<lambda>m p d. (Some (Other ''permission denied''), m)),
              ConvertSessionsToCSV := (\<lambda>c ss opt name m. (Some (Other ''permission denied''), m)),
              CreateSeparateCSVFiles := (\<lambda>ss a b m. (Some (Other ''permission denied''), m))\<rparr>"

text \<open>
  A file system with directories: a path is resolved before it is used, the way a file
  system walks it (\<open>.\<close> stays, \<open>..\<close> goes up, every directory named exists), and the file
  is kept under the resolved path. Paths are relative to the working directory.
\<close>

fun split_path :: "string \<Rightarrow> string \<Rightarrow> string list" where
  "split_path acc [] = [rev acc]"
| "split_path acc (x # xs) =
     (if x = CHR ''/'' then rev acc # split_path [] xs else split_path (x # acc) xs)"

fun walk :: "string list \<Rightarrow> string list \<Rightarrow> string list" where
  "walk up [] = rev up"
| "walk up (seg # segs) =
     (if seg = '''' \<or> seg = ''.'' then walk up segs
      else if seg = ''..'' \<and> up \<noteq> [] then walk (tl up) segs
      else walk (seg # up) segs)"

fun join_path :: "string list \<Rightarrow> string" where
  "join_path [] = ''''"
| "join_path [seg] = seg"
| "join_path (seg # segs) = seg @ ''/'' @ join_path segs"

definition resolve :: "string \<Rightarrow> string" where
  "resolve p = join_path (walk [] (split_path [] p))"

definition dir_env :: "(memfs, string list) env" where
  "dir_env =
     test_env\<lparr>ReadFile := (\<lambda>m p. mem_ReadFile m (resolve p)),
              WriteFile := (\<lambda>m p d. mem_WriteFile m (resolve p) d)\<rparr>"

section \<open>Properties\<close>

subsection \<open>Auxiliary facts\<close>

lemma writes_append: "writes (xs @ ys) = writes xs @ writes ys"
  by (simp add: writes_def)

lemma exports_append: "exports (xs @ ys) = exports xs @ exports ys"
  by (simp add: exports_def)

lemma trace_emit: "trace (emit e s) = trace s @ [e]"
  by (simp add: emit_def)

lemma world_emit: "world (emit e s) = world s"
  by (simp add: emit_def)

lemma trace_set_fs: "trace (set_fs f s) = trace s"
  by (simp add: set_fs_def)

lemma world_set_fs: "world (set_fs f s) = (world s)\<lparr>fs := f\<rparr>"
  by (simp add: set_fs_def)

lemma writes_simps [simp]:
  "writes [] = []"
  "writes (Print m # tr) = writes tr"
  "writes (CallWriteFile p d # tr) = CallWriteFile p d # writes tr"
  "writes (CallReadFile p # tr) = writes tr"
  "writes (CallRepair d # tr) = writes tr"
  "writes (CallReadJSON p # tr) = writes tr"
  "writes (CallExtract # tr) = writes tr"
  "writes (CallConvert c n p # tr) = writes tr"
  "writes (CallCreateSeparate a b # tr) = writes tr"
  "writes (CallConfirm p # tr) = writes tr"
  by (simp_all add: writes_def is_write_def)

lemma exports_simps [simp]:
  "exports [] = []"
  "exports (Print m # tr) = exports tr"
  "exports (CallWriteFile p d # tr) = exports tr"
  "exports (CallReadFile p # tr) = exports tr"
  "exports (CallRepair d # tr) = exports tr"
  "exports (CallReadJSON p # tr) = CallReadJSON p # exports tr"
  "exports (CallExtract # tr) = CallExtract # exports tr"
  "exports (CallConvert c n p # tr) = CallConvert c n p # exports tr"
  "exports (CallCreateSeparate a b # tr) = CallCreateSeparate a b # exports tr"
  "exports (CallConfirm p # tr) = exports tr"
  by (simp_all add: exports_def is_export_def)

lemma handler_line_quiet [simp]:
  "writes (handler_line c c') = []" "exports (handler_line c c') = []"
  by (simp_all add: handler_line_def)

lemma signals_events:
  "signals es c = (es', c', evs) \<Longrightarrow> evs = handler_line c c' \<and> (c \<longrightarrow> c')"
proof (induction es c arbitrary: es' c' evs rule: signals.induct)
  case (1 es c)
  obtain a b d where r: "signals es True = (a, b, d)"
    by (metis prod.exhaust)
  from "1.IH" [OF r] have "d = handler_line True b" and "b" by simp_all
  with "1.prems" r show ?case by (auto simp: handler_line_def)
qed (simp_all add: handler_line_def)

lemma await_events:
  "await es c = (res, es', c', evs) \<Longrightarrow> evs = handler_line c c' \<and> (c \<longrightarrow> c')"
proof (induction es c arbitrary: res es' c' evs rule: await.induct)
  case (1 c)
  then show ?case by (simp add: handler_line_def)
next
  case (2 es c)
  obtain r a b d where r: "await es True = (r, a, b, d)"
    by (metis prod.exhaust)
  from "2.IH" [OF r] have "d = handler_line True b" and "b" by simp_all
  with "2.prems" r show ?case by (auto simp: handler_line_def)
next
  case (3 es c)
  then show ?case by (auto simp: handler_line_def)
next
  case (4 line e es c)
  then show ?case using signals_events [of es c es' c' evs] by simp
qed

lemma trace_promptForInput:
  "trace (snd (promptForInput p s)) =
     trace s @ Print p # handler_line (canceled (world s)) (canceled (world (snd (promptForInput p s))))"
proof -
  obtain res es c evs where a: "await (stdin (world s)) (canceled (world s)) = (res, es, c, evs)"
    by (metis prod.exhaust)
  from await_events [OF a] have "evs = handler_line (canceled (world s)) c" by simp
  with a show ?thesis
    by (simp add: promptForInput_def Let_def trace_emit world_emit)
qed

lemma writes_promptForInput: "writes (trace (snd (promptForInput p s))) = writes (trace s)"
  by (simp add: trace_promptForInput writes_append)

lemma exports_promptForInput: "exports (trace (snd (promptForInput p s))) = exports (trace s)"
  by (simp add: trace_promptForInput exports_append)

lemma fs_promptForInput: "fs (world (snd (promptForInput p s))) = fs (world s)"
  by (simp add: promptForInput_def Let_def world_emit split: prod.splits)

lemma trace_confirmOverwrite:
  "trace (snd (confirmOverwrite env n s)) =
     trace s @ CallConfirm n # handler_line (canceled (world s)) (canceled (world (snd (confirmOverwrite env n s))))"
  by (simp add: confirmOverwrite_def Let_def trace_emit world_emit split: prod.splits)

lemma writes_confirmOverwrite: "writes (trace (snd (confirmOverwrite env n s))) = writes (trace s)"
  by (simp add: trace_confirmOverwrite writes_append)

lemma exports_confirmOverwrite: "exports (trace (snd (confirmOverwrite env n s))) = exports (trace s)"
  by (simp add: trace_confirmOverwrite exports_append)

lemma exitOnError_cases:
  "exitOnError e s = (Exit (if e = Canceled \<or> e = EOF then 0 else 1),
     emit (Print (if e = Canceled \<or> e = EOF then GracefulMessage
                  else ''\<newline>Error reading input: '' @ Error e @ ''\<newline>'')) s)"
  by (simp add: exitOnError_def)

subsection \<open>Repairing: repairJSONData\<close>

lemma repairJSONData_writes:
  "writes (trace (snd (repairJSONData env path s))) =
     writes (trace s) @
       (case ReadFile env (fs (world s)) path of
          Inl _ \<Rightarrow> []
        | Inr d \<Rightarrow> (case RepairSessionData env d of
                     Inl _ \<Rightarrow> []
                   | Inr r \<Rightarrow> [CallWriteFile (''repaired_'' @ path) r]))"
  by (simp add: repairJSONData_def Let_def trace_emit world_emit trace_set_fs writes_append
           split: sum.splits prod.splits option.splits)

lemma repaired_path_distinct: "''repaired_'' @ path \<noteq> path"
proof
  assume "''repaired_'' @ path = path"
  then have "length (''repaired_'' @ path) = length path" by simp
  then show False by simp
qed

lemma repairJSONData_ok_parts:
  assumes "repairJSONData env path s = ((p, None), s')"
  shows "\<exists>d r. ReadFile env (fs (world s)) path = Inr d \<and> RepairSessionData env d = Inr r
              \<and> WriteFile env (fs (world s)) (''repaired_'' @ path) r = (None, fs (world s'))
              \<and> p = ''repaired_'' @ path
              \<and> trace s' = trace s @ [CallReadFile path, CallRepair d, CallWriteFile (''repaired_'' @ path) r]"
proof (cases "ReadFile env (fs (world s)) path")
  case (Inl e)
  with assms show ?thesis by (simp add: repairJSONData_def Let_def world_emit)
next
  case (Inr d)
  note rd = this
  show ?thesis
  proof (cases "RepairSessionData env d")
    case (Inl e)
    with assms rd show ?thesis by (simp add: repairJSONData_def Let_def world_emit)
  next
    case (Inr r)
    note rp = this
    obtain werr f where wr: "WriteFile env (fs (world s)) (''repaired_'' @ path) r = (werr, f)"
      by (cases "WriteFile env (fs (world s)) (''repaired_'' @ path) r")
    show ?thesis
    proof (cases werr)
      case (Some e)
      with assms rd rp wr show ?thesis by (simp add: repairJSONData_def Let_def world_emit)
    next
      case None
      with assms rd rp wr have "p = ''repaired_'' @ path"
        and "s' = set_fs f (emit (CallWriteFile (''repaired_'' @ path) r) (emit (CallRepair d) (emit (CallReadFile path) s)))"
        by (auto simp: repairJSONData_def Let_def world_emit)
      with rd rp wr None show ?thesis
        by (simp add: trace_emit world_emit trace_set_fs world_set_fs)
    qed
  qed
qed

text \<open>
  Claim C1. When \<open>repairdata.RepairSessionData\<close> fails, repairJSONData returns that
  error with the empty path, and it has done nothing to the outside but read the input
  file and call the repair: the world (and so the file system) is as before and no
  \<open>WriteFile\<close> call was made. In every run, repairJSONData calls \<open>WriteFile\<close> exactly when
  the read and the repair both succeeded, once, with the repaired data.
\<close>

theorem repairJSONData_repair_failed:
  assumes "ReadFile env (fs (world s)) path = Inr d"
    and "RepairSessionData env d = Inl e"
  shows "fst (repairJSONData env path s) = ('''', Some e)
       \<and> world (snd (repairJSONData env path s)) = world s
       \<and> trace (snd (repairJSONData env path s)) = trace s @ [CallReadFile path, CallRepair d]
       \<and> writes (trace (snd (repairJSONData env path s))) = writes (trace s)
       \<and> writes (trace (snd (repairJSONData env path' s'))) =
           writes (trace s') @
             (case ReadFile env (fs (world s')) path' of
                Inl _ \<Rightarrow> []
              | Inr d' \<Rightarrow> (case RepairSessionData env d' of
                            Inl _ \<Rightarrow> []
                          | Inr r \<Rightarrow> [CallWriteFile (''repaired_'' @ path') r]))"
proof -
  have "fst (repairJSONData env path s) = ('''', Some e)
       \<and> world (snd (repairJSONData env path s)) = world s
       \<and> trace (snd (repairJSONData env path s)) = trace s @ [CallReadFile path, CallRepair d]
       \<and> writes (trace (snd (repairJSONData env path s))) = writes (trace s)"
    using assms
    by (simp add: repairJSONData_def Let_def trace_emit world_emit writes_append)
  then show ?thesis
    using repairJSONData_writes [of env path' s'] by blast
qed

theorem repairJSONData_repair_failed_witness:
  "ReadFile test_env (fs (world (start [] [(''x.json'', ''abc'')]))) ''x.json'' = Inr ''abc''
   \<and> RepairSessionData test_env ''abc'' = Inl (Other ''repair failed'')
   \<and> fst (repairJSONData test_env ''x.json'' (start [] [(''x.json'', ''abc'')])) = ('''', Some (Other ''repair failed''))
   \<and> fs (world (snd (repairJSONData test_env ''x.json'' (start [] [(''x.json'', ''abc'')])))) = [(''x.json'', ''abc'')]
   \<and> writes (trace (snd (repairJSONData test_env ''x.json'' (start [] [(''x.json'', ''abc'')])))) = []"
proof -
  have r: "ReadFile test_env (fs (world (start [] [(''x.json'', ''abc'')]))) ''x.json'' = Inr ''abc''"
    by (simp add: test_env_def start_def mem_ReadFile_def)
  have f: "RepairSessionData test_env ''abc'' = Inl (Other ''repair failed'')"
    by (simp add: test_env_def)
  show ?thesis
    using repairJSONData_repair_failed [OF r f] r f by (simp add: start_def)
qed

text \<open>
  For every path, what a successful repairJSONData has done: one write, of the repaired
  data, to the string \<open>repaired_\<close> followed by the whole path as entered.
\<close>

lemma repairJSONData_written_path:
  assumes "repairJSONData env path s = ((p, None), s')"
  shows "p = ''repaired_'' @ path \<and> p \<noteq> path
       \<and> (\<exists>d r. ReadFile env (fs (world s)) path = Inr d \<and> RepairSessionData env d = Inr r
              \<and> WriteFile env (fs (world s)) p r = (None, fs (world s'))
              \<and> trace s' = trace s @ [CallReadFile path, CallRepair d, CallWriteFile p r])"
proof -
  from repairJSONData_ok_parts [OF assms] obtain d r where
    rd: "ReadFile env (fs (world s)) path = Inr d" and
    rp: "RepairSessionData env d = Inr r" and
    wr: "WriteFile env (fs (world s)) (''repaired_'' @ path) r = (None, fs (world s'))" and
    p: "p = ''repaired_'' @ path" and
    tr: "trace s' = trace s @ [CallReadFile path, CallRepair d, CallWriteFile (''repaired_'' @ path) r]"
    by blast
  have ne: "p \<noteq> path" using p repaired_path_distinct by simp
  have ex: "\<exists>d r. ReadFile env (fs (world s)) path = Inr d \<and> RepairSessionData env d = Inr r
              \<and> WriteFile env (fs (world s)) p r = (None, fs (world s'))
              \<and> trace s' = trace s @ [CallReadFile path, CallRepair d, CallWriteFile p r]"
    using rd rp wr tr p by blast
  show ?thesis using p ne ex by blast
qed

text \<open>
  Claim C2 at the inputs where the code departs from it. For the path \<open>d/x.json\<close> the
  repaired data goes to \<open>repaired_d/x.json\<close>: a file named \<open>x.json\<close> in another directory,
  not a file named \<open>repaired_x.json\<close>. For the path \<open>a/../x.json\<close>, on a file system with
  directories, it goes to \<open>repaired_a/../x.json\<close>, which is the input file itself: after
  the repair the input file holds the repaired data.
\<close>

theorem repairJSONData_prefixes_whole_path:
  "repairJSONData test_env ''d/x.json'' (start [] [(''d/x.json'', ''{abc'')]) =
     ((''repaired_d/x.json'', None),
      \<lparr>world = \<lparr>stdin = [], canceled = False,
                fs = [(''repaired_d/x.json'', ''{abc}''), (''d/x.json'', ''{abc'')]\<rparr>,
       trace = [CallReadFile ''d/x.json'', CallRepair ''{abc'', CallWriteFile ''repaired_d/x.json'' ''{abc}'']\<rparr>)
   \<and> resolve ''a/../x.json'' = ''x.json''
   \<and> resolve ''repaired_a/../x.json'' = ''x.json''
   \<and> repairJSONData dir_env ''a/../x.json'' (start [] [(''x.json'', ''{abc'')]) =
     ((''repaired_a/../x.json'', None),
      \<lparr>world = \<lparr>stdin = [], canceled = False, fs = [(''x.json'', ''{abc}'')]\<rparr>,
       trace = [CallReadFile ''a/../x.json'', CallRepair ''{abc'',
                CallWriteFile ''repaired_a/../x.json'' ''{abc}'']\<rparr>)
   \<and> ReadFile dir_env [(''x.json'', ''{abc}'')] ''a/../x.json'' = Inr ''{abc}''"
  by code_simp

subsection \<open>Saving: saveToFile\<close>

lemma handleInputError_writes:
  "writes (trace (snd (handleInputError e s))) = writes (trace s)"
  by (simp add: handleInputError_def trace_emit writes_append)

lemma saveToFile_writes_steps:
  assumes r1: "promptForInput PromptSaveOutputToFile s = ((a, ea), s1)"
    and r2: "promptForInput (PromptEnterFileName fileType) s1 = ((n, en), s2)"
    and r3: "confirmOverwrite env (n @ (if fileType = FileTypeDataset then ''.json'' else ''.csv'')) s2 = (ov, s3)"
  shows "writes (trace (snd (saveToFile env content fileType s))) =
     writes (trace s) @
       (if ea = None \<and> ToLower a = ''yes'' \<and> en = None \<and> n \<noteq> '''' \<and> ov = Inr True
        then [CallWriteFile (n @ (if fileType = FileTypeDataset then ''.json'' else ''.csv'')) content]
        else [])"
proof -
  define fileName where "fileName = n @ (if fileType = FileTypeDataset then ''.json'' else ''.csv'')"
  have r3': "confirmOverwrite env fileName s2 = (ov, s3)"
    using r3 by (simp add: fileName_def)
  have t1: "writes (trace s1) = writes (trace s)"
    using writes_promptForInput [of PromptSaveOutputToFile s] r1 by simp
  have t2: "writes (trace s2) = writes (trace s)"
    using writes_promptForInput [of "PromptEnterFileName fileType" s1] r2 t1 by simp
  have t3: "writes (trace s3) = writes (trace s)"
    using writes_confirmOverwrite [of env fileName s2] r3' t2 by simp
  show ?thesis
  proof (cases ea)
    case (Some e)
    then show ?thesis
      using r1 t1 by (simp add: saveToFile_def handleInputError_writes)
  next
    case None
    note ea = this
    show ?thesis
    proof (cases "ToLower a = ''yes''")
      case False
      then show ?thesis
        using r1 ea t1 by (simp add: saveToFile_def trace_emit writes_append)
    next
      case True
      note yes = this
      show ?thesis
      proof (cases en)
        case (Some e)
        then show ?thesis
          using r1 r2 ea yes t2 by (simp add: saveToFile_def handleInputError_writes)
      next
        case None
        note en = this
        show ?thesis
        proof (cases "n = ''''")
          case True
          then show ?thesis
            using r1 r2 ea yes en t2 by (simp add: saveToFile_def trace_emit writes_append)
        next
          case False
          note ne = this
          have unf: "saveToFile env content fileType s =
            (case ov of
               Inl e \<Rightarrow> handleInputError e s3
             | Inr overwrite \<Rightarrow>
                 if \<not> overwrite then (Ret (), emit (Print ''Operation cancelled by the user.\<newline>'') s3)
                 else
                   (let s4 = emit (CallWriteFile fileName content) s3;
                        (werr, fs') = WriteFile env (fs (world s4)) fileName content;
                        s5 = set_fs fs' s4
                    in case werr of
                         Some e \<Rightarrow> (Ret (), emit (Print (''Error writing file: '' @ Error e @ ''\<newline>'')) s5)
                       | None \<Rightarrow> (Ret (), emit (Print (ToTitle fileType @ '' output saved to '' @ fileName @ ''\<newline>'')) s5)))"
            using r1 r2 r3 ea yes en ne unfolding saveToFile_def fileName_def
            by (simp add: Let_def)
          show ?thesis
          proof (cases ov)
            case (Inl e)
            then show ?thesis
              using unf ea yes en ne t3 by (simp add: handleInputError_writes)
          next
            case (Inr overwrite)
            show ?thesis
            proof (cases overwrite)
              case False
              then show ?thesis
                using unf Inr ea yes en ne t3 by (simp add: trace_emit writes_append)
            next
              case True
              then show ?thesis
                using unf Inr ea yes en ne t3
                by (simp add: Let_def trace_emit trace_set_fs writes_append fileName_def
                      split: prod.splits option.splits)
            qed
          qed
        qed
      qed
    qed
  qed
qed

text \<open>
  Claim C10. saveToFile calls \<open>WriteFile\<close> at most once, and exactly when the answer to the
  save question was read without error and lowercases to \<open>yes\<close>, the file name was read
  without error and is not empty, and ConfirmOverwrite returned true without error. On
  every other path the \<open>WriteFile\<close> calls of the trace are those made before.
\<close>

theorem saveToFile_writes_once:
  "writes (trace (snd (saveToFile env content fileType s))) =
     writes (trace s) @
       (let r1 = promptForInput PromptSaveOutputToFile s;
            r2 = promptForInput (PromptEnterFileName fileType) (snd r1);
            fileName = fst (fst r2) @ (if fileType = FileTypeDataset then ''.json'' else ''.csv'')
        in if snd (fst r1) = None \<and> ToLower (fst (fst r1)) = ''yes''
              \<and> snd (fst r2) = None \<and> fst (fst r2) \<noteq> ''''
              \<and> fst (confirmOverwrite env fileName (snd r2)) = Inr True
           then [CallWriteFile fileName content] else [])
   \<and> length (writes (trace (snd (saveToFile env content fileType s)))) \<le> length (writes (trace s)) + 1"
proof -
  obtain a ea s1 where r1: "promptForInput PromptSaveOutputToFile s = ((a, ea), s1)"
    by (metis prod.exhaust)
  obtain n en s2 where r2: "promptForInput (PromptEnterFileName fileType) s1 = ((n, en), s2)"
    by (metis prod.exhaust)
  obtain ov s3 where r3:
    "confirmOverwrite env (n @ (if fileType = FileTypeDataset then ''.json'' else ''.csv'')) s2 = (ov, s3)"
    by (metis prod.exhaust)
  show ?thesis
    unfolding saveToFile_writes_steps [OF r1 r2 r3] Let_def r1 fst_conv snd_conv r2 r3
    by simp
qed

theorem saveToFile_writes_once_witness:
  "writes (trace (snd (saveToFile test_env ''[]'' ''dataset''
      (start [ReadDone ''no\<newline>'' None, ReadDone ''out\<newline>'' None] [])))) = []"
  using saveToFile_writes_once [of test_env "''[]''" "''dataset''"
      "start [ReadDone ''no\<newline>'' None, ReadDone ''out\<newline>'' None] []"]
  by (simp add: start_def promptForInput_def emit_def Let_def TrimSpace_def isSpace_def
        ToLower_def lower_char_def PromptSaveOutputToFile_def)

text \<open>
  Claim C4, as the code has it. saveToFile appends the extension to every file name it is
  given: \<open>.json\<close> when the file type is \<open>dataset\<close>, \<open>.csv\<close> otherwise. The name
  entered is never looked at, so a name that already ends in the extension gets it a
  second time.
\<close>

theorem saveToFile_appends_extension:
  assumes "promptForInput PromptSaveOutputToFile s = ((a, None), s1)"
    and "ToLower a = ''yes''"
    and "promptForInput (PromptEnterFileName fileType) s1 = ((n, None), s2)"
    and "n \<noteq> ''''"
    and "confirmOverwrite env (n @ (if fileType = FileTypeDataset then ''.json'' else ''.csv'')) s2 = (Inr True, s3)"
  shows "writes (trace (snd (saveToFile env content fileType s))) =
     writes (trace s) @ [CallWriteFile (n @ (if fileType = FileTypeDataset then ''.json'' else ''.csv'')) content]"
  using saveToFile_writes_steps [OF assms(1) assms(3) assms(5)] assms(2) assms(4) by simp

theorem saveToFile_appends_extension_witness:
  "writes (trace (snd (saveToFile test_env ''a,b'' ''csv''
      (start [ReadDone ''Yes\<newline>'' None, ReadDone ''data.csv\<newline>'' None] [])))) =
     [CallWriteFile ''data.csv.csv'' ''a,b'']"
proof -
  let ?s = "start [ReadDone ''Yes\<newline>'' None, ReadDone ''data.csv\<newline>'' None] []"
  let ?s1 = "snd (promptForInput PromptSaveOutputToFile ?s)"
  let ?s2 = "snd (promptForInput (PromptEnterFileName ''csv'') ?s1)"
  let ?s3 = "snd (confirmOverwrite test_env ''data.csv.csv'' ?s2)"
  have h1: "promptForInput PromptSaveOutputToFile ?s = ((''Yes'', None), ?s1)"
    by code_simp
  have h2: "ToLower ''Yes'' = ''yes''"
    by code_simp
  have h3: "promptForInput (PromptEnterFileName ''csv'') ?s1 = ((''data.csv'', None), ?s2)"
    by code_simp
  have h4: "''data.csv'' \<noteq> ''''"
    by simp
  have h5: "confirmOverwrite test_env
      (''data.csv'' @ (if ''csv'' = FileTypeDataset then ''.json'' else ''.csv'')) ?s2 = (Inr True, ?s3)"
    by code_simp
  show ?thesis
    using saveToFile_appends_extension [OF h1 h2 h3 h4 h5, of "''a,b''"]
    by (simp add: start_def FileTypeDataset_def)
qed

text \<open>
  The run that refutes claim C4 as stated: asked to save a dataset as \<open>out.json\<close>, the
  program writes \<open>out.json.json\<close>.
\<close>

theorem saveToFile_extension_counterexample:
  "saveToFile test_env ''[]'' ''dataset''
      (start [ReadDone ''yes\<newline>'' None, ReadDone ''out.json\<newline>'' None] []) =
     (Ret (),
      \<lparr>world = \<lparr>stdin = [], canceled = False, fs = [(''out.json.json'', ''[]'')]\<rparr>,
       trace = [Print ''Do you want to save the output to a file? (yes/no)\<newline>'',
                Print ''Enter the name of the dataset file to save: '',
                CallConfirm ''out.json.json'',
                CallWriteFile ''out.json.json'' ''[]'',
                Print ''DATASET output saved to out.json.json\<newline>'']\<rparr>)
   \<and> ''out.json.json'' \<noteq> ''out.json''"
  by code_simp

subsection \<open>The repair mode of main\<close>






subsection \<open>Invalid selections\<close>

text \<open>
  Claim C7, as the code has it. An output option other than \<open>1\<close> and \<open>2\<close>, and a CSV format
  answer that \<open>strconv.Atoi\<close> rejects, are reported and the function returns: nothing is
  prompted for, confirmed or written after that. An integer CSV option is not checked
  against the four layouts: every integer but 3 leads to the prompt for the file name and
  then to convertToSingleCSV (overwrite confirmation, \<open>exporter.ConvertSessionsToCSV\<close>)
  with that option.
\<close>

theorem invalid_selection:
  "(outputOption \<noteq> ''1'' \<and> outputOption \<noteq> ''2'' \<longrightarrow>
      processOutputOption env outputOption sessions s = (Ret (), emit (Print ''Invalid output option.\<newline>'') s))
   \<and> (promptForInput PromptSelectCSVOutputFormat s = ((str, None), s1) \<and> Atoi str = None \<longrightarrow>
      processCSVOption env sessions s = (Ret (), emit (Print ''\<newline>Invalid format option.\<newline>'') s1)
      \<and> fs (world s1) = fs (world s)
      \<and> trace s1 = trace s @ Print PromptSelectCSVOutputFormat
                           # handler_line (canceled (world s)) (canceled (world s1)))
   \<and> (formatOption \<noteq> OutputFormatSeparateCSV
        \<and> promptForInput PromptEnterCSVFileName s = ((csvFileName, None), s2) \<longrightarrow>
      executeCSVConversion env formatOption sessions s =
        convertToSingleCSV env sessions formatOption csvFileName s2
      \<and> trace s2 = trace s @ Print PromptEnterCSVFileName
                           # handler_line (canceled (world s)) (canceled (world s2)))"
proof (intro conjI impI)
  assume "outputOption \<noteq> ''1'' \<and> outputOption \<noteq> ''2''"
  then show "processOutputOption env outputOption sessions s =
      (Ret (), emit (Print ''Invalid output option.\<newline>'') s)"
    by (simp add: processOutputOption_def)
next
  assume a: "promptForInput PromptSelectCSVOutputFormat s = ((str, None), s1) \<and> Atoi str = None"
  then show "processCSVOption env sessions s =
      (Ret (), emit (Print ''\<newline>Invalid format option.\<newline>'') s1)"
    by (simp add: processCSVOption_def)
  show "fs (world s1) = fs (world s)"
    using a fs_promptForInput [of PromptSelectCSVOutputFormat s] by simp
  show "trace s1 = trace s @ Print PromptSelectCSVOutputFormat
                           # handler_line (canceled (world s)) (canceled (world s1))"
    using a trace_promptForInput [of PromptSelectCSVOutputFormat s] by simp
next
  assume a: "formatOption \<noteq> OutputFormatSeparateCSV
     \<and> promptForInput PromptEnterCSVFileName s = ((csvFileName, None), s2)"
  then show "executeCSVConversion env formatOption sessions s =
      convertToSingleCSV env sessions formatOption csvFileName s2"
    by (simp add: executeCSVConversion_def)
  show "trace s2 = trace s @ Print PromptEnterCSVFileName
                           # handler_line (canceled (world s)) (canceled (world s2))"
    using a trace_promptForInput [of PromptEnterCSVFileName s] by simp
qed

theorem invalid_selection_witness:
  "processOutputOption test_env ''3'' [] (start [ReadDone ''abc\<newline>'' None, ReadDone ''out.csv\<newline>'' None] []) =
     (Ret (), emit (Print ''Invalid output option.\<newline>'')
                (start [ReadDone ''abc\<newline>'' None, ReadDone ''out.csv\<newline>'' None] []))
   \<and> processCSVOption test_env [] (start [ReadDone ''abc\<newline>'' None, ReadDone ''out.csv\<newline>'' None] []) =
     (Ret (), emit (Print ''\<newline>Invalid format option.\<newline>'')
                (snd (promptForInput PromptSelectCSVOutputFormat
                   (start [ReadDone ''abc\<newline>'' None, ReadDone ''out.csv\<newline>'' None] []))))
   \<and> executeCSVConversion test_env 7 [] (start [ReadDone ''abc\<newline>'' None, ReadDone ''out.csv\<newline>'' None] []) =
     convertToSingleCSV test_env [] 7 ''abc''
       (snd (promptForInput PromptEnterCSVFileName
          (start [ReadDone ''abc\<newline>'' None, ReadDone ''out.csv\<newline>'' None] [])))"
proof -
  let ?s = "start [ReadDone ''abc\<newline>'' None, ReadDone ''out.csv\<newline>'' None] []"
  have h1: "''3'' \<noteq> ''1'' \<and> ''3'' \<noteq> ''2''"
    by simp
  have h2: "promptForInput PromptSelectCSVOutputFormat ?s =
      ((''abc'', None), snd (promptForInput PromptSelectCSVOutputFormat ?s)) \<and> Atoi ''abc'' = None"
    by code_simp
  have h3: "(7::int) \<noteq> OutputFormatSeparateCSV
      \<and> promptForInput PromptEnterCSVFileName ?s =
          ((''abc'', None), snd (promptForInput PromptEnterCSVFileName ?s))"
    by code_simp
  show ?thesis
    using invalid_selection [of "''3''" test_env "[]" ?s "''abc''"
        "snd (promptForInput PromptSelectCSVOutputFormat ?s)" 7 "''abc''"
        "snd (promptForInput PromptEnterCSVFileName ?s)"] h1 h2 h3
    by blast
qed

text \<open>
  The run that refutes claim C7 as stated: CSV option 5 is asked for a file name and an
  overwrite confirmation, and reaches the exporter.
\<close>

theorem invalid_csv_option_counterexample:
  "Atoi ''5'' = Some 5
   \<and> processCSVOption test_env [''data'']
       (start [ReadDone ''5\<newline>'' None, ReadDone ''out.csv\<newline>'' None] []) =
     (Ret (),
      \<lparr>world = \<lparr>stdin = [], canceled = False, fs = []\<rparr>,
       trace = [Print PromptSelectCSVOutputFormat,
                Print ''Enter the name of the CSV file to save: '',
                CallConfirm ''out.csv'',
                CallConvert False 5 ''out.csv'',
                Print ''Failed to convert sessions to CSV: invalid format option\<newline>'']\<rparr>)"
  by code_simp

subsection \<open>The race in promptForInput\<close>



subsection \<open>An error at a prompt or at a confirmation\<close>

lemma main_prompt1_error:
  "promptForInput PromptEnterJSONFilePath s = ((a, Some e), s1) \<Longrightarrow> main env s = handleInputError e s1"
  by (simp add: main_def)

lemma main_prompt2_error:
  assumes "promptForInput PromptEnterJSONFilePath s = ((path, None), s1)"
    and "promptForInput PromptRepairData s1 = ((a, Some e), s2)"
  shows "main env s = handleInputError e s2"
  using assms by (simp add: main_def)

lemma main_prompt3_error:
  assumes "promptForInput PromptEnterJSONFilePath s = ((path, None), s1)"
    and "promptForInput PromptRepairData s1 = ((ans, None), s2)"
    and "ToLower ans \<noteq> ''yes''"
    and "ReadJSONFromFile env (fs (world s2)) path = Inr sessions"
    and "promptForInput PromptSelectOutputFormat (emit (CallReadJSON path) s2) = ((a, Some e), s4)"
  shows "main env s = handleInputError e s4"
  using assms by (simp add: main_def Let_def world_emit)

lemma processCSVOption_prompt_error:
  "promptForInput PromptSelectCSVOutputFormat s = ((a, Some e), s1) \<Longrightarrow>
   processCSVOption env sessions s = exitOnError e s1"
  by (simp add: processCSVOption_def)

lemma executeCSVConversion_prompt_error:
  assumes "formatOption \<noteq> OutputFormatSeparateCSV"
    and "promptForInput PromptEnterCSVFileName s = ((a, Some e), s1)"
  shows "executeCSVConversion env formatOption sessions s = handleInputError e s1"
  using assms by (simp add: executeCSVConversion_def)

lemma createSeparateCSVFiles_prompt1_error:
  "promptForInput PromptEnterSessionsCSVFileName s = ((a, Some e), s1) \<Longrightarrow>
   createSeparateCSVFiles env sessions s = handleInputError e s1"
  by (simp add: createSeparateCSVFiles_def)

lemma createSeparateCSVFiles_confirm1_error:
  assumes "promptForInput PromptEnterSessionsCSVFileName s = ((n1, None), s1)"
    and "confirmOverwrite env n1 s1 = (Inl e, s2)"
  shows "createSeparateCSVFiles env sessions s = handleInputError e s2"
  using assms by (simp add: createSeparateCSVFiles_def)

lemma createSeparateCSVFiles_prompt2_error:
  assumes "promptForInput PromptEnterSessionsCSVFileName s = ((n1, None), s1)"
    and "confirmOverwrite env n1 s1 = (Inr True, s2)"
    and "promptForInput PromptEnterMessagesCSVFileName s2 = ((a, Some e), s3)"
  shows "createSeparateCSVFiles env sessions s = handleInputError e s3"
  using assms by (simp add: createSeparateCSVFiles_def)

lemma createSeparateCSVFiles_confirm2_error:
  assumes "promptForInput PromptEnterSessionsCSVFileName s = ((n1, None), s1)"
    and "confirmOverwrite env n1 s1 = (Inr True, s2)"
    and "promptForInput PromptEnterMessagesCSVFileName s2 = ((n2, None), s3)"
    and "confirmOverwrite env n2 s3 = (Inl e, s4)"
  shows "createSeparateCSVFiles env sessions s = handleInputError e s4"
  using assms by (simp add: createSeparateCSVFiles_def)

lemma saveToFile_prompt1_error:
  "promptForInput PromptSaveOutputToFile s = ((a, Some e), s1) \<Longrightarrow>
   saveToFile env content fileType s = handleInputError e s1"
  by (simp add: saveToFile_def)

lemma saveToFile_prompt2_error:
  assumes "promptForInput PromptSaveOutputToFile s = ((ans, None), s1)"
    and "ToLower ans = ''yes''"
    and "promptForInput (PromptEnterFileName fileType) s1 = ((a, Some e), s2)"
  shows "saveToFile env content fileType s = handleInputError e s2"
  using assms by (simp add: saveToFile_def)

lemma saveToFile_confirm_error:
  assumes "promptForInput PromptSaveOutputToFile s = ((ans, None), s1)"
    and "ToLower ans = ''yes''"
    and "promptForInput (PromptEnterFileName fileType) s1 = ((n, None), s2)"
    and "n \<noteq> ''''"
    and "confirmOverwrite env (n @ (if fileType = FileTypeDataset then ''.json'' else ''.csv'')) s2 = (Inl e, s3)"
  shows "saveToFile env content fileType s = handleInputError e s3"
  using assms by (simp add: saveToFile_def Let_def)

lemma convertToSingleCSV_confirm_error:
  "confirmOverwrite env csvFileName s = (Inl e, s1) \<Longrightarrow>
   convertToSingleCSV env sessions formatOption csvFileName s =
     (Ret (), emit (Print (''Failed to check file existence: '' @ Error e @ ''\<newline>'')) s1)"
  by (simp add: convertToSingleCSV_def)

lemma handleInputError_Canceled: "handleInputError Canceled s = (Exit 0, emit (Print GracefulMessage) s)"
  by (simp add: handleInputError_def)

lemma exitOnError_Canceled: "exitOnError Canceled s = (Exit 0, emit (Print GracefulMessage) s)"
  by (simp add: exitOnError_def)

lemma convertToSingleCSV_token:
  assumes "confirmOverwrite env csvFileName s = (Inr True, s1)"
  shows "fs (world (snd (convertToSingleCSV env sessions formatOption csvFileName s))) =
           snd (ConvertSessionsToCSV env (canceled (world s1)) sessions formatOption csvFileName (fs (world s1)))
       \<and> exports (trace (snd (convertToSingleCSV env sessions formatOption csvFileName s))) =
           exports (trace s) @ [CallConvert (canceled (world s1)) formatOption csvFileName]"
proof -
  obtain cerr f where x:
    "ConvertSessionsToCSV env (canceled (world s1)) sessions formatOption csvFileName (fs (world s1)) = (cerr, f)"
    by (metis prod.exhaust)
  have t1: "exports (trace s1) = exports (trace s)"
    using exports_confirmOverwrite [of env csvFileName s] assms by simp
  show ?thesis
    using assms x t1
    by (cases cerr)
       (simp_all add: convertToSingleCSV_def Let_def world_emit trace_emit world_set_fs
          trace_set_fs exports_append)
qed

lemma createSeparateCSVFiles_converts:
  assumes p1: "promptForInput PromptEnterSessionsCSVFileName s = ((n1, None), s1)"
    and c1: "confirmOverwrite env n1 s1 = (Inr True, s2)"
    and p2: "promptForInput PromptEnterMessagesCSVFileName s2 = ((n2, None), s3)"
    and c2: "confirmOverwrite env n2 s3 = (Inr True, s4)"
  shows "fs (world (snd (createSeparateCSVFiles env sessions s))) =
           snd (CreateSeparateCSVFiles env sessions n1 n2 (fs (world s4)))
       \<and> exports (trace (snd (createSeparateCSVFiles env sessions s))) =
           exports (trace s) @ [CallCreateSeparate n1 n2]"
proof -
  obtain cerr f where x: "CreateSeparateCSVFiles env sessions n1 n2 (fs (world s4)) = (cerr, f)"
    by (metis prod.exhaust)
  have t1: "exports (trace s1) = exports (trace s)"
    using exports_promptForInput [of PromptEnterSessionsCSVFileName s] p1 by simp
  have t2: "exports (trace s2) = exports (trace s)"
    using exports_confirmOverwrite [of env n1 s1] c1 t1 by simp
  have t3: "exports (trace s3) = exports (trace s)"
    using exports_promptForInput [of PromptEnterMessagesCSVFileName s2] p2 t2 by simp
  have t4: "exports (trace s4) = exports (trace s)"
    using exports_confirmOverwrite [of env n2 s3] c2 t3 by simp
  show ?thesis
    using assms x t4
    by (cases cerr)
       (simp_all add: createSeparateCSVFiles_def Let_def world_emit trace_emit world_set_fs
          trace_set_fs exports_append exitOnError_cases)
qed

subsection \<open>Where the cancellation reaches\<close>

text \<open>
  Claim C6, as the code has it. The context reaches every prompt: whichever of the nine
  prompts of main.go returns \<open>context.Canceled\<close> (three in main, one in processCSVOption,
  one in executeCSVConversion, two in createSeparateCSVFiles, two in saveToFile), the
  process ends there with the graceful message and exit status 0, and nothing is
  converted or written after it. convertToSingleCSV hands the state of the context to
  \<open>exporter.ConvertSessionsToCSV\<close>. \<open>exporter.CreateSeparateCSVFiles\<close> is called without
  the context: once both names are read and confirmed it is called, and what it does to
  the file system is kept, whatever the state of the context.
\<close>

theorem cancellation_reach:
  "(stdin (world s) = CtxDone # es \<longrightarrow> fst (promptForInput prompt s) = ('''', Some Canceled))
   \<and> (promptForInput PromptEnterJSONFilePath sa = ((aa, Some Canceled), sa1) \<longrightarrow>
        main env sa = (Exit 0, emit (Print GracefulMessage) sa1))
   \<and> (promptForInput PromptEnterJSONFilePath sb = ((pathb, None), sb1)
        \<and> promptForInput PromptRepairData sb1 = ((ab, Some Canceled), sb2) \<longrightarrow>
        main env sb = (Exit 0, emit (Print GracefulMessage) sb2))
   \<and> (promptForInput PromptEnterJSONFilePath sc = ((pathc, None), sc1)
        \<and> promptForInput PromptRepairData sc1 = ((ansc, None), sc2)
        \<and> ToLower ansc \<noteq> ''yes''
        \<and> ReadJSONFromFile env (fs (world sc2)) pathc = Inr sessions
        \<and> promptForInput PromptSelectOutputFormat (emit (CallReadJSON pathc) sc2) = ((ac, Some Canceled), sc4) \<longrightarrow>
        main env sc = (Exit 0, emit (Print GracefulMessage) sc4))
   \<and> (promptForInput PromptSelectCSVOutputFormat sd = ((ad, Some Canceled), sd1) \<longrightarrow>
        processCSVOption env sessions sd = (Exit 0, emit (Print GracefulMessage) sd1))
   \<and> (fe \<noteq> OutputFormatSeparateCSV
        \<and> promptForInput PromptEnterCSVFileName se = ((ae, Some Canceled), se1) \<longrightarrow>
        executeCSVConversion env fe sessions se = (Exit 0, emit (Print GracefulMessage) se1))
   \<and> (promptForInput PromptEnterSessionsCSVFileName sf = ((af, Some Canceled), sf1) \<longrightarrow>
        createSeparateCSVFiles env sessions sf = (Exit 0, emit (Print GracefulMessage) sf1))
   \<and> (promptForInput PromptEnterSessionsCSVFileName sg = ((ng, None), sg1)
        \<and> confirmOverwrite env ng sg1 = (Inr True, sg2)
        \<and> promptForInput PromptEnterMessagesCSVFileName sg2 = ((ag, Some Canceled), sg3) \<longrightarrow>
        createSeparateCSVFiles env sessions sg = (Exit 0, emit (Print GracefulMessage) sg3))
   \<and> (promptForInput PromptSaveOutputToFile sh = ((ah, Some Canceled), sh1) \<longrightarrow>
        saveToFile env content fileType sh = (Exit 0, emit (Print GracefulMessage) sh1))
   \<and> (promptForInput PromptSaveOutputToFile si = ((ansi, None), si1)
        \<and> ToLower ansi = ''yes''
        \<and> promptForInput (PromptEnterFileName fileType) si1 = ((ai, Some Canceled), si2) \<longrightarrow>
        saveToFile env content fileType si = (Exit 0, emit (Print GracefulMessage) si2))
   \<and> (confirmOverwrite env csvFileName sj = (Inr True, sj1) \<longrightarrow>
        fs (world (snd (convertToSingleCSV env sessions formatOption csvFileName sj))) =
          snd (ConvertSessionsToCSV env (canceled (world sj1)) sessions formatOption csvFileName (fs (world sj1)))
        \<and> exports (trace (snd (convertToSingleCSV env sessions formatOption csvFileName sj))) =
          exports (trace sj) @ [CallConvert (canceled (world sj1)) formatOption csvFileName])
   \<and> (promptForInput PromptEnterSessionsCSVFileName sk = ((n1, None), sk1)
        \<and> confirmOverwrite env n1 sk1 = (Inr True, sk2)
        \<and> promptForInput PromptEnterMessagesCSVFileName sk2 = ((n2, None), sk3)
        \<and> confirmOverwrite env n2 sk3 = (Inr True, sk4) \<longrightarrow>
        fs (world (snd (createSeparateCSVFiles env sessions sk))) =
          snd (CreateSeparateCSVFiles env sessions n1 n2 (fs (world sk4)))
        \<and> exports (trace (snd (createSeparateCSVFiles env sessions sk))) =
          exports (trace sk) @ [CallCreateSeparate n1 n2])"
proof (intro conjI impI)
  assume "stdin (world s) = CtxDone # es"
  then show "fst (promptForInput prompt s) = ('''', Some Canceled)"
    by (simp add: promptForInput_def Let_def world_emit)
next
  assume "promptForInput PromptEnterJSONFilePath sa = ((aa, Some Canceled), sa1)"
  then have "main env sa = handleInputError Canceled sa1"
    by (rule main_prompt1_error)
  then show "main env sa = (Exit 0, emit (Print GracefulMessage) sa1)"
    by (simp add: handleInputError_Canceled)
next
  assume "promptForInput PromptEnterJSONFilePath sb = ((pathb, None), sb1)
        \<and> promptForInput PromptRepairData sb1 = ((ab, Some Canceled), sb2)"
  then have "main env sb = handleInputError Canceled sb2"
    by (elim conjE) (rule main_prompt2_error, assumption+)
  then show "main env sb = (Exit 0, emit (Print GracefulMessage) sb2)"
    by (simp add: handleInputError_Canceled)
next
  assume "promptForInput PromptEnterJSONFilePath sc = ((pathc, None), sc1)
        \<and> promptForInput PromptRepairData sc1 = ((ansc, None), sc2)
        \<and> ToLower ansc \<noteq> ''yes''
        \<and> ReadJSONFromFile env (fs (world sc2)) pathc = Inr sessions
        \<and> promptForInput PromptSelectOutputFormat (emit (CallReadJSON pathc) sc2) = ((ac, Some Canceled), sc4)"
  then have "main env sc = handleInputError Canceled sc4"
    by (elim conjE) (rule main_prompt3_error, assumption+)
  then show "main env sc = (Exit 0, emit (Print GracefulMessage) sc4)"
    by (simp add: handleInputError_Canceled)
next
  assume "promptForInput PromptSelectCSVOutputFormat sd = ((ad, Some Canceled), sd1)"
  then have "processCSVOption env sessions sd = exitOnError Canceled sd1"
    by (rule processCSVOption_prompt_error)
  then show "processCSVOption env sessions sd = (Exit 0, emit (Print GracefulMessage) sd1)"
    by (simp add: exitOnError_Canceled)
next
  assume "fe \<noteq> OutputFormatSeparateCSV
        \<and> promptForInput PromptEnterCSVFileName se = ((ae, Some Canceled), se1)"
  then have "executeCSVConversion env fe sessions se = handleInputError Canceled se1"
    by (elim conjE) (rule executeCSVConversion_prompt_error, assumption+)
  then show "executeCSVConversion env fe sessions se = (Exit 0, emit (Print GracefulMessage) se1)"
    by (simp add: handleInputError_Canceled)
next
  assume "promptForInput PromptEnterSessionsCSVFileName sf = ((af, Some Canceled), sf1)"
  then have "createSeparateCSVFiles env sessions sf = handleInputError Canceled sf1"
    by (rule createSeparateCSVFiles_prompt1_error)
  then show "createSeparateCSVFiles env sessions sf = (Exit 0, emit (Print GracefulMessage) sf1)"
    by (simp add: handleInputError_Canceled)
next
  assume "promptForInput PromptEnterSessionsCSVFileName sg = ((ng, None), sg1)
        \<and> confirmOverwrite env ng sg1 = (Inr True, sg2)
        \<and> promptForInput PromptEnterMessagesCSVFileName sg2 = ((ag, Some Canceled), sg3)"
  then have "createSeparateCSVFiles env sessions sg = handleInputError Canceled sg3"
    by (elim conjE) (rule createSeparateCSVFiles_prompt2_error, assumption+)
  then show "createSeparateCSVFiles env sessions sg = (Exit 0, emit (Print GracefulMessage) sg3)"
    by (simp add: handleInputError_Canceled)
next
  assume "promptForInput PromptSaveOutputToFile sh = ((ah, Some Canceled), sh1)"
  then have "saveToFile env content fileType sh = handleInputError Canceled sh1"
    by (rule saveToFile_prompt1_error)
  then show "saveToFile env content fileType sh = (Exit 0, emit (Print GracefulMessage) sh1)"
    by (simp add: handleInputError_Canceled)
next
  assume "promptForInput PromptSaveOutputToFile si = ((ansi, None), si1)
        \<and> ToLower ansi = ''yes''
        \<and> promptForInput (PromptEnterFileName fileType) si1 = ((ai, Some Canceled), si2)"
  then have "saveToFile env content fileType si = handleInputError Canceled si2"
    by (elim conjE) (rule saveToFile_prompt2_error, assumption+)
  then show "saveToFile env content fileType si = (Exit 0, emit (Print GracefulMessage) si2)"
    by (simp add: handleInputError_Canceled)
next
  assume h: "confirmOverwrite env csvFileName sj = (Inr True, sj1)"
  show "fs (world (snd (convertToSingleCSV env sessions formatOption csvFileName sj))) =
          snd (ConvertSessionsToCSV env (canceled (world sj1)) sessions formatOption csvFileName (fs (world sj1)))"
    using convertToSingleCSV_token [OF h] by simp
  show "exports (trace (snd (convertToSingleCSV env sessions formatOption csvFileName sj))) =
          exports (trace sj) @ [CallConvert (canceled (world sj1)) formatOption csvFileName]"
    using convertToSingleCSV_token [OF h] by simp
next
  assume h: "promptForInput PromptEnterSessionsCSVFileName sk = ((n1, None), sk1)
        \<and> confirmOverwrite env n1 sk1 = (Inr True, sk2)
        \<and> promptForInput PromptEnterMessagesCSVFileName sk2 = ((n2, None), sk3)
        \<and> confirmOverwrite env n2 sk3 = (Inr True, sk4)"
  have r: "fs (world (snd (createSeparateCSVFiles env sessions sk))) =
          snd (CreateSeparateCSVFiles env sessions n1 n2 (fs (world sk4)))
        \<and> exports (trace (snd (createSeparateCSVFiles env sessions sk))) =
          exports (trace sk) @ [CallCreateSeparate n1 n2]"
    using h by (elim conjE) (rule createSeparateCSVFiles_converts, assumption+)
  from r show "fs (world (snd (createSeparateCSVFiles env sessions sk))) =
          snd (CreateSeparateCSVFiles env sessions n1 n2 (fs (world sk4)))"
    by simp
  from r show "exports (trace (snd (createSeparateCSVFiles env sessions sk))) =
          exports (trace sk) @ [CallCreateSeparate n1 n2]"
    by simp
qed

theorem cancellation_reach_witness:
  "fst (promptForInput PromptEnterCSVFileName (start [CtxDone] ([] :: memfs))) = ('''', Some Canceled)
   \<and> fst (main test_env (start [CtxDone] [])) = Exit 0
   \<and> fst (main test_env (start [ReadDone ''x.json\<newline>'' None, CtxDone] [])) = Exit 0
   \<and> fst (main test_env (start [ReadDone ''x.json\<newline>'' None, ReadDone ''no\<newline>'' None, CtxDone]
              [(''x.json'', ''data'')])) = Exit 0
   \<and> fst (processCSVOption test_env [''data''] (start [CtxDone] [])) = Exit 0
   \<and> fst (executeCSVConversion test_env 1 [''data''] (start [CtxDone] [])) = Exit 0
   \<and> fst (createSeparateCSVFiles test_env [''data''] (start [CtxDone] [])) = Exit 0
   \<and> fst (createSeparateCSVFiles test_env [''data''] (start [ReadDone ''s.csv\<newline>'' None, CtxDone] [])) = Exit 0
   \<and> fst (saveToFile test_env ''[]'' ''dataset'' (start [CtxDone] [])) = Exit 0
   \<and> fst (saveToFile test_env ''[]'' ''dataset'' (start [ReadDone ''yes\<newline>'' None, CtxDone] [])) = Exit 0
   \<and> exports (trace (snd (convertToSingleCSV test_env [''data''] 1 ''out.csv''
         \<lparr>world = \<lparr>stdin = [], canceled = True, fs = []\<rparr>, trace = []\<rparr>))) =
       [CallConvert True 1 ''out.csv'']
   \<and> fs (world (snd (createSeparateCSVFiles test_env [''data'']
         (start [ReadDone ''s.csv\<newline>'' None, ReadDone ''m.csv\<newline>'' None, Signal] [])))) =
       [(''m.csv'', ''data''), (''s.csv'', ''sessions'')]"
proof -
  note t = cancellation_reach [where env = test_env and sessions = "[''data'']" and content = "''[]''"
      and fileType = "''dataset''" and prompt = PromptEnterCSVFileName and formatOption = 1 and fe = 1]
  let ?c = "start [CtxDone] [] :: memfs state"
  let ?b = "start [ReadDone ''x.json\<newline>'' None, CtxDone] [] :: memfs state"
  let ?m = "start [ReadDone ''x.json\<newline>'' None, ReadDone ''no\<newline>'' None, CtxDone] [(''x.json'', ''data'')]"
  let ?g = "start [ReadDone ''s.csv\<newline>'' None, CtxDone] [] :: memfs state"
  let ?i = "start [ReadDone ''yes\<newline>'' None, CtxDone] [] :: memfs state"
  let ?j = "\<lparr>world = \<lparr>stdin = [], canceled = True, fs = ([] :: memfs)\<rparr>, trace = []\<rparr>"
  let ?k = "start [ReadDone ''s.csv\<newline>'' None, ReadDone ''m.csv\<newline>'' None, Signal] [] :: memfs state"
  let ?b1 = "snd (promptForInput PromptEnterJSONFilePath ?b)"
  let ?m1 = "snd (promptForInput PromptEnterJSONFilePath ?m)"
  let ?m2 = "snd (promptForInput PromptRepairData ?m1)"
  let ?g1 = "snd (promptForInput PromptEnterSessionsCSVFileName ?g)"
  let ?g2 = "snd (confirmOverwrite test_env ''s.csv'' ?g1)"
  let ?i1 = "snd (promptForInput PromptSaveOutputToFile ?i)"
  let ?k1 = "snd (promptForInput PromptEnterSessionsCSVFileName ?k)"
  let ?k2 = "snd (confirmOverwrite test_env ''s.csv'' ?k1)"
  let ?k3 = "snd (promptForInput PromptEnterMessagesCSVFileName ?k2)"
  let ?k4 = "snd (confirmOverwrite test_env ''m.csv'' ?k3)"
  have h1: "stdin (world ?c) = CtxDone # []"
    by (simp add: start_def)
  have h2: "promptForInput PromptEnterJSONFilePath ?c =
      (('''', Some Canceled), snd (promptForInput PromptEnterJSONFilePath ?c))"
    by code_simp
  have h3: "promptForInput PromptEnterJSONFilePath ?b = ((''x.json'', None), ?b1)
      \<and> promptForInput PromptRepairData ?b1 = (('''', Some Canceled), snd (promptForInput PromptRepairData ?b1))"
    by code_simp
  have h4: "promptForInput PromptEnterJSONFilePath ?m = ((''x.json'', None), ?m1)
      \<and> promptForInput PromptRepairData ?m1 = ((''no'', None), ?m2)
      \<and> ToLower ''no'' \<noteq> ''yes''
      \<and> ReadJSONFromFile test_env (fs (world ?m2)) ''x.json'' = Inr [''data'']
      \<and> promptForInput PromptSelectOutputFormat (emit (CallReadJSON ''x.json'') ?m2) =
          (('''', Some Canceled), snd (promptForInput PromptSelectOutputFormat (emit (CallReadJSON ''x.json'') ?m2)))"
    by code_simp
  have h5: "promptForInput PromptSelectCSVOutputFormat ?c =
      (('''', Some Canceled), snd (promptForInput PromptSelectCSVOutputFormat ?c))"
    by code_simp
  have h6: "(1::int) \<noteq> OutputFormatSeparateCSV
      \<and> promptForInput PromptEnterCSVFileName ?c =
          (('''', Some Canceled), snd (promptForInput PromptEnterCSVFileName ?c))"
    by code_simp
  have h7: "promptForInput PromptEnterSessionsCSVFileName ?c =
      (('''', Some Canceled), snd (promptForInput PromptEnterSessionsCSVFileName ?c))"
    by code_simp
  have h8: "promptForInput PromptEnterSessionsCSVFileName ?g = ((''s.csv'', None), ?g1)
      \<and> confirmOverwrite test_env ''s.csv'' ?g1 = (Inr True, ?g2)
      \<and> promptForInput PromptEnterMessagesCSVFileName ?g2 =
          (('''', Some Canceled), snd (promptForInput PromptEnterMessagesCSVFileName ?g2))"
    by code_simp
  have h9: "promptForInput PromptSaveOutputToFile ?c =
      (('''', Some Canceled), snd (promptForInput PromptSaveOutputToFile ?c))"
    by code_simp
  have h10: "promptForInput PromptSaveOutputToFile ?i = ((''yes'', None), ?i1)
      \<and> ToLower ''yes'' = ''yes''
      \<and> promptForInput (PromptEnterFileName ''dataset'') ?i1 =
          (('''', Some Canceled), snd (promptForInput (PromptEnterFileName ''dataset'') ?i1))"
    by code_simp
  have h11: "confirmOverwrite test_env ''out.csv'' ?j = (Inr True, snd (confirmOverwrite test_env ''out.csv'' ?j))"
    by code_simp
  have h12: "promptForInput PromptEnterSessionsCSVFileName ?k = ((''s.csv'', None), ?k1)
      \<and> confirmOverwrite test_env ''s.csv'' ?k1 = (Inr True, ?k2)
      \<and> promptForInput PromptEnterMessagesCSVFileName ?k2 = ((''m.csv'', None), ?k3)
      \<and> confirmOverwrite test_env ''m.csv'' ?k3 = (Inr True, ?k4)"
    by code_simp
  have v11: "canceled (world (snd (confirmOverwrite test_env ''out.csv'' ?j))) = True"
    by code_simp
  have v12: "snd (CreateSeparateCSVFiles test_env [''data''] ''s.csv'' ''m.csv'' (fs (world ?k4))) =
      [(''m.csv'', ''data''), (''s.csv'', ''sessions'')]"
    by code_simp
  note c1 = t [THEN conjunct1, rule_format, OF h1]
  note c2 = t [THEN conjunct2, THEN conjunct1, rule_format, OF h2]
  note c3 = t [THEN conjunct2, THEN conjunct2, THEN conjunct1, rule_format, OF h3]
  note c4 = t [THEN conjunct2, THEN conjunct2, THEN conjunct2, THEN conjunct1, rule_format, OF h4]
  note c5 = t [THEN conjunct2, THEN conjunct2, THEN conjunct2, THEN conjunct2, THEN conjunct1,
      rule_format, OF h5]
  note c6 = t [THEN conjunct2, THEN conjunct2, THEN conjunct2, THEN conjunct2, THEN conjunct2,
      THEN conjunct1, rule_format, OF h6]
  note c7 = t [THEN conjunct2, THEN conjunct2, THEN conjunct2, THEN conjunct2, THEN conjunct2,
      THEN conjunct2, THEN conjunct1, rule_format, OF h7]
  note c8 = t [THEN conjunct2, THEN conjunct2, THEN conjunct2, THEN conjunct2, THEN conjunct2,
      THEN conjunct2, THEN conjunct2, THEN conjunct1, rule_format, OF h8]
  note c9 = t [THEN conjunct2, THEN conjunct2, THEN conjunct2, THEN conjunct2, THEN conjunct2,
      THEN conjunct2, THEN conjunct2, THEN conjunct2, THEN conjunct1, rule_format, OF h9]
  note c10 = t [THEN conjunct2, THEN conjunct2, THEN conjunct2, THEN conjunct2, THEN conjunct2,
      THEN conjunct2, THEN conjunct2, THEN conjunct2, THEN conjunct2, THEN conjunct1, rule_format, OF h10]
  note c11 = t [THEN conjunct2, THEN conjunct2, THEN conjunct2, THEN conjunct2, THEN conjunct2,
      THEN conjunct2, THEN conjunct2, THEN conjunct2, THEN conjunct2, THEN conjunct2, THEN conjunct1,
      rule_format, OF h11]
  note c12 = t [THEN conjunct2, THEN conjunct2, THEN conjunct2, THEN conjunct2, THEN conjunct2,
      THEN conjunct2, THEN conjunct2, THEN conjunct2, THEN conjunct2, THEN conjunct2, THEN conjunct2,
      rule_format, OF h12]
  show ?thesis
    using c1 c2 c3 c4 c5 c6 c7 c8 c9 c10 c11 c12 v11 v12 by simp
qed

text \<open>
  The run that refutes claim C6 as stated: the interrupt arrives after the second file
  name was read, the handler prints its line and cancels the context, and the conversion
  is called and writes both files all the same.
\<close>

theorem separate_files_after_cancel_counterexample:
  "canceled (world (snd (promptForInput PromptEnterMessagesCSVFileName
      (snd (confirmOverwrite test_env ''s.csv''
         (snd (promptForInput PromptEnterSessionsCSVFileName
            (start [ReadDone ''s.csv\<newline>'' None, ReadDone ''m.csv\<newline>'' None, Signal] []))))))))
   \<and> createSeparateCSVFiles test_env [''data'']
       (start [ReadDone ''s.csv\<newline>'' None, ReadDone ''m.csv\<newline>'' None, Signal] []) =
     (Ret (),
      \<lparr>world = \<lparr>stdin = [], canceled = True, fs = [(''m.csv'', ''data''), (''s.csv'', ''sessions'')]\<rparr>,
       trace = [Print ''Enter the name of the sessions CSV file to save: '',
                CallConfirm ''s.csv'',
                Print ''Enter the name of the messages CSV file to save: '',
                Print ''\<newline>[GopherHelper] Exiting gracefully...\<newline>'',
                CallConfirm ''m.csv'',
                CallCreateSeparate ''s.csv'' ''m.csv'',
                Print ''Sessions data saved to s.csv\<newline>'',
                Print ''Messages data saved to m.csv\<newline>'']\<rparr>)"
  by code_simp

subsection \<open>Exit status after a failure\<close>

text \<open>
  Claim C5 at the inputs where the code departs from it. On a file system that refuses
  every write, the dataset export prints \<open>Error writing file\<close> and the single-file CSV
  export prints \<open>Failed to convert sessions to CSV\<close>; both return to main, which returns,
  so the exit status is 0. The sibling paths do as the claim says: the same failure in the
  separate-files export and in the repair ends the process with status 1.
\<close>

theorem failure_with_exit_status_zero:
  "main readonly_env
     (start [ReadDone ''x.json\<newline>'' None, ReadDone ''no\<newline>'' None, ReadDone ''2\<newline>'' None,
             ReadDone ''yes\<newline>'' None, ReadDone ''out\<newline>'' None]
        [(''x.json'', ''{abc'')]) =
   (Ret (),
    \<lparr>world = \<lparr>stdin = [], canceled = False, fs = [(''x.json'', ''{abc'')]\<rparr>,
     trace = [Print ''Enter the path to the JSON file: '',
              Print ''Do you want to repair data? (yes/no): '',
              CallReadJSON ''x.json'',
              Print PromptSelectOutputFormat,
              CallExtract,
              Print PromptSaveOutputToFile,
              Print ''Enter the name of the dataset file to save: '',
              CallConfirm ''out.json'',
              CallWriteFile ''out.json'' ''{abc'',
              Print ''Error writing file: permission denied\<newline>'']\<rparr>)
   \<and> exit_status (fst (main readonly_env
        (start [ReadDone ''x.json\<newline>'' None, ReadDone ''no\<newline>'' None, ReadDone ''2\<newline>'' None,
                ReadDone ''yes\<newline>'' None, ReadDone ''out\<newline>'' None]
           [(''x.json'', ''{abc'')]))) = 0
   \<and> main readonly_env
     (start [ReadDone ''x.json\<newline>'' None, ReadDone ''no\<newline>'' None, ReadDone ''1\<newline>'' None,
             ReadDone ''1\<newline>'' None, ReadDone ''out.csv\<newline>'' None]
        [(''x.json'', ''{abc'')]) =
   (Ret (),
    \<lparr>world = \<lparr>stdin = [], canceled = False, fs = [(''x.json'', ''{abc'')]\<rparr>,
     trace = [Print ''Enter the path to the JSON file: '',
              Print ''Do you want to repair data? (yes/no): '',
              CallReadJSON ''x.json'',
              Print PromptSelectOutputFormat,
              Print PromptSelectCSVOutputFormat,
              Print ''Enter the name of the CSV file to save: '',
              CallConfirm ''out.csv'',
              CallConvert False 1 ''out.csv'',
              Print ''Failed to convert sessions to CSV: permission denied\<newline>'']\<rparr>)
   \<and> exit_status (fst (main readonly_env
        (start [ReadDone ''x.json\<newline>'' None, ReadDone ''no\<newline>'' None, ReadDone ''1\<newline>'' None,
                ReadDone ''3\<newline>'' None, ReadDone ''s.csv\<newline>'' None, ReadDone ''m.csv\<newline>'' None]
           [(''x.json'', ''{abc'')]))) = 1
   \<and> exit_status (fst (main readonly_env
        (start [ReadDone ''x.json\<newline>'' None, ReadDone ''yes\<newline>'' None]
           [(''x.json'', ''{abc'')]))) = 1"
  by code_simp

subsection \<open>End of input\<close>

text \<open>handleInputError does for \<open>io.EOF\<close> what it does for \<open>context.Canceled\<close>.\<close>

lemma handleInputError_EOF:
  "handleInputError EOF s = (Exit 0, emit (Print GracefulMessage) s)
   \<and> handleInputError EOF s = handleInputError Canceled s"
  by (simp add: handleInputError_def)

text \<open>
  Claim C9 at the input where the code departs from it. The CSV file to write exists and
  the input ends at the overwrite confirmation. convertToSingleCSV does not hand the
  error to handleInputError: the end of input is printed as a failure,
  \<open>Failed to check file existence: EOF\<close>. In the dataset export the same end of input goes
  through handleInputError, with the graceful message and exit status 0.
\<close>

theorem end_of_input_reported_as_failure:
  "main test_env
     (start [ReadDone ''x.json\<newline>'' None, ReadDone ''no\<newline>'' None, ReadDone ''1\<newline>'' None,
             ReadDone ''1\<newline>'' None, ReadDone ''out.csv\<newline>'' None]
        [(''x.json'', ''{abc''), (''out.csv'', ''old'')]) =
   (Ret (),
    \<lparr>world = \<lparr>stdin = [], canceled = False, fs = [(''x.json'', ''{abc''), (''out.csv'', ''old'')]\<rparr>,
     trace = [Print ''Enter the path to the JSON file: '',
              Print ''Do you want to repair data? (yes/no): '',
              CallReadJSON ''x.json'',
              Print PromptSelectOutputFormat,
              Print PromptSelectCSVOutputFormat,
              Print ''Enter the name of the CSV file to save: '',
              CallConfirm ''out.csv'',
              Print ''Failed to check file existence: EOF\<newline>'']\<rparr>)
   \<and> main test_env
     (start [ReadDone ''x.json\<newline>'' None, ReadDone ''no\<newline>'' None, ReadDone ''2\<newline>'' None,
             ReadDone ''yes\<newline>'' None, ReadDone ''out\<newline>'' None]
        [(''x.json'', ''{abc''), (''out.json'', ''old'')]) =
   (Exit 0,
    \<lparr>world = \<lparr>stdin = [], canceled = False, fs = [(''x.json'', ''{abc''), (''out.json'', ''old'')]\<rparr>,
     trace = [Print ''Enter the path to the JSON file: '',
              Print ''Do you want to repair data? (yes/no): '',
              CallReadJSON ''x.json'',
              Print PromptSelectOutputFormat,
              CallExtract,
              Print PromptSaveOutputToFile,
              Print ''Enter the name of the dataset file to save: '',
              CallConfirm ''out.json'',
              Print GracefulMessage]\<rparr>)"
  by code_simp

end
